theory Spec2Isabelle
  imports Complex_Main "HOL-Library.Sublist" "HOL-Library.Multiset"
begin

section \<open>Data model (types module)\<close>

text \<open>
  The interfaces \<open>CreditCard\<close>, \<open>CardEmbedding\<close> and \<open>RecommendationsResponse\<close>.
  The index signature of \<open>CreditCard\<close> (further attributes, strings or numbers) is the
  association list \<open>attributes\<close>; the field \<open>id\<close> is called \<open>card_id\<close> here.
  JavaScript numbers are idealised as real numbers.
\<close>

record CreditCard =
  card_id :: string
  credit_card_name :: string
  url_application :: string
  attributes :: "(string \<times> (string + real)) list"

record CardEmbedding =
  cardId :: string
  embedding :: "real list"
  card :: CreditCard

text \<open>
  What \<open>JSON.parse\<close> returns. An object is the list of its own properties. The
  recommendations handed back to the caller are elements of the parsed array, unchanged,
  so a recommendation is a \<open>json\<close> value.
\<close>

datatype json =
    JNull
  | JBool bool
  | JNumber real
  | JString string
  | JArray "json list"
  | JObject "(string \<times> json) list"

datatype jsval = Undefined | Json json

record RecommendationsResponse =
  recommendations :: "json list"
  rawModelAnswer :: "string option"

section \<open>JavaScript semantics used by the generator\<close>

text \<open>Truthiness of a value, as \<open>&&\<close>, \<open>||\<close> and \<open>filter\<close> test it.\<close>

fun truthy_json :: "json \<Rightarrow> bool" where
  "truthy_json JNull = False"
| "truthy_json (JBool b) = b"
| "truthy_json (JNumber x) = (x \<noteq> 0)"
| "truthy_json (JString s) = (s \<noteq> [])"
| "truthy_json (JArray xs) = True"
| "truthy_json (JObject kvs) = True"

fun truthy :: "jsval \<Rightarrow> bool" where
  "truthy Undefined = False"
| "truthy (Json j) = truthy_json j"

text \<open>
  Reading the property \<open>k\<close> of a parsed value, for the four property names the generator
  reads (\<open>cards\<close>, \<open>credit_card_name\<close>, \<open>apply_url\<close>, \<open>reason\<close>), none of which is a
  built-in property of a boolean, number, string or array. Reading a property of
  \<open>null\<close> throws a TypeError: the result \<open>None\<close>.
\<close>

fun getProp :: "json \<Rightarrow> string \<Rightarrow> jsval option" where
  "getProp JNull k = None"
| "getProp (JObject kvs) k =
     Some (case map_of kvs k of None \<Rightarrow> Undefined | Some v \<Rightarrow> Json v)"
| "getProp (JBool b) k = Some Undefined"
| "getProp (JNumber x) k = Some Undefined"
| "getProp (JString s) k = Some Undefined"
| "getProp (JArray xs) k = Some Undefined"

text \<open>
  \<open>Array.prototype.filter\<close> with a callback that may throw: the elements are tested in
  order, and the first exception ends the whole call (\<open>None\<close>).
\<close>

fun filter_throwing :: "('a \<Rightarrow> bool option) \<Rightarrow> 'a list \<Rightarrow> 'a list option" where
  "filter_throwing p [] = Some []"
| "filter_throwing p (x # xs) =
     (case p x of
        None \<Rightarrow> None
      | Some b \<Rightarrow>
          (case filter_throwing p xs of
             None \<Rightarrow> None
           | Some ys \<Rightarrow> Some (if b then x # ys else ys)))"

text \<open>\<open>Array.prototype.join\<close> on strings.\<close>

fun join :: "string \<Rightarrow> string list \<Rightarrow> string" where
  "join sep [] = []"
| "join sep [s] = s"
| "join sep (s # t # ts) = s @ sep @ join sep (t # ts)"

section \<open>The environment of a request\<close>

text \<open>
  What is thrown: \<open>Error m\<close> is \<open>new Error(m)\<close> of this module; \<open>ExternalFailure d\<close> is
  a rejection by one of the collaborators, with its diagnostic text.
\<close>

datatype thrown = Error string | ExternalFailure string

record chat_message =
  content :: "string option"

record choice =
  message :: "chat_message option"

record completion =
  choices :: "choice list"

record chat_request =
  model :: string
  system_content :: string
  user_content :: string
  temperature :: real
  max_tokens :: nat
  response_format :: string

text \<open>
  Modelled from the spec: the modules \<open>./embeddings\<close> (\<open>embedQuery\<close>,
  \<open>findSimilarCards\<close>) and \<open>./data\<close> (\<open>cardToText\<close>) are not part of the sources at
  hand, so the three imports are fields of the record below, with any behaviour:
  \<open>embedQuery\<close> and \<open>findSimilarCards\<close> return or throw, \<open>cardToText\<close> is taken to
  return a string for every card.

  The other fields are what \<open>generateRecommendations\<close> takes from its platform: two
  variables of \<open>process.env\<close>, the method \<open>chat.completions.create\<close> of the client
  (given the API key the client was built with) and \<open>JSON.parse\<close> (\<open>None\<close> is its
  SyntaxError).
\<close>

record world =
  env_OPENAI_API_KEY :: "string option"
  env_CHAT_MODEL :: "string option"
  embedQuery :: "string \<Rightarrow> thrown + real list"
  findSimilarCards :: "real list \<Rightarrow> int \<Rightarrow> thrown + CardEmbedding list"
  cardToText :: "CreditCard \<Rightarrow> string"
  create :: "string \<Rightarrow> chat_request \<Rightarrow> thrown + completion"
  JSON_parse :: "string \<Rightarrow> json option"

text \<open>
  The calls of its imports and of the chat method that a request makes, in the order it
  makes them.
\<close>

datatype event =
    EmbedQuery string
  | FindSimilarCards "real list" int
  | ChatCompletionsCreate chat_request

section \<open>The recommendation generator\<close>

text \<open>
  \<open>getOpenAIClient\<close>: throws when the key is undefined or empty; the client is
  represented by the key it was built with.
\<close>

definition getOpenAIClient :: "world \<Rightarrow> thrown + string" where
  "getOpenAIClient w =
     (case env_OPENAI_API_KEY w of
        None \<Rightarrow> Inl (Error ''OPENAI_API_KEY is not set. Please check your .env.local file.'')
      | Some k \<Rightarrow>
          if k = [] then
            Inl (Error ''OPENAI_API_KEY is not set. Please check your .env.local file.'')
          else Inr k)"

definition CHAT_MODEL :: "world \<Rightarrow> string" where
  "CHAT_MODEL w =
     (case env_CHAT_MODEL w of
        None \<Rightarrow> ''gpt-3.5-turbo''
      | Some m \<Rightarrow> if m = [] then ''gpt-3.5-turbo'' else m)"

definition formatCardsForContext :: "(CreditCard \<Rightarrow> string) \<Rightarrow> CardEmbedding list \<Rightarrow> string" where
  "formatCardsForContext toText cards =
     join ''\<newline>''
       (map (\<lambda>cardEmbedding.
               credit_card_name (card cardEmbedding) @ '' | '' @ toText (card cardEmbedding)
                 @ '' | URL: '' @ url_application (card cardEmbedding))
            cards)"

definition systemPrompt :: string where
  \<open>systemPrompt =
     ''Recommend 3-5 credit cards from the candidate list. Return JSON:\<newline>{\<newline>''
     @ ''  "cards": [\<newline>    {\<newline>''
     @ ''      "credit_card_name": "exact name from candidate",\<newline>''
     @ ''      "apply_url": "exact URL from candidate",\<newline>''
     @ ''      "reason": "2-3 sentence explanation"\<newline>''
     @ ''    }\<newline>  ]\<newline>}''\<close>

definition userPrompt :: "string \<Rightarrow> string \<Rightarrow> string" where
  "userPrompt userQuery context =
     ''Question: '' @ userQuery @ ''\<newline>\<newline>Candidates:\<newline>'' @ context
       @ ''\<newline>\<newline>Return JSON with best matches.''"

definition chatRequest :: "world \<Rightarrow> string \<Rightarrow> CardEmbedding list \<Rightarrow> chat_request" where
  "chatRequest w userQuery similarCards =
     \<lparr> model = CHAT_MODEL w,
       system_content = systemPrompt,
       user_content = userPrompt userQuery (formatCardsForContext (cardToText w) similarCards),
       temperature = 3 / 10,
       max_tokens = 500,
       response_format = ''json_object'' \<rparr>"

text \<open>\<open>completion.choices[0]?.message?.content || ''\<close>.\<close>

definition rawAnswerOf :: "completion \<Rightarrow> string" where
  "rawAnswerOf c =
     (case choices c of
        [] \<Rightarrow> []
      | ch # rest \<Rightarrow>
          (case message ch of
             None \<Rightarrow> []
           | Some m \<Rightarrow> (case content m of None \<Rightarrow> [] | Some s \<Rightarrow> s)))"

text \<open>
  The callback of \<open>recommendations.filter\<close>: the three fields must be truthy and the
  name strictly equal to the name of one of the candidate cards. \<open>None\<close> is the
  TypeError of reading a property of \<open>null\<close>.
\<close>

definition validRecommendation :: "CardEmbedding list \<Rightarrow> json \<Rightarrow> bool option" where
  "validRecommendation similarCards rec =
     (case getProp rec ''credit_card_name'' of
        None \<Rightarrow> None
      | Some name \<Rightarrow>
          if \<not> truthy name then Some False
          else
            (case getProp rec ''apply_url'' of
               None \<Rightarrow> None
             | Some url \<Rightarrow>
                 if \<not> truthy url then Some False
                 else
                   (case getProp rec ''reason'' of
                      None \<Rightarrow> None
                    | Some reason \<Rightarrow>
                        if \<not> truthy reason then Some False
                        else
                          Some (list_ex
                                  (\<lambda>c. Json (JString (credit_card_name (card c))) = name)
                                  similarCards))))"

text \<open>
  The body of the inner \<open>try\<close>: \<open>JSON.parse\<close>, \<open>parsed.cards || []\<close>, then
  \<open>filter\<close>. A truthy \<open>cards\<close> that is not an array has no callable \<open>filter\<close>, which
  throws. \<open>None\<close> is any exception, all of which the inner \<open>catch\<close> receives.
\<close>

definition parseRecommendations ::
  "(string \<Rightarrow> json option) \<Rightarrow> CardEmbedding list \<Rightarrow> string \<Rightarrow> json list option" where
  "parseRecommendations parse similarCards rawAnswer =
     (case parse rawAnswer of
        None \<Rightarrow> None
      | Some parsed \<Rightarrow>
          (case getProp parsed ''cards'' of
             None \<Rightarrow> None
           | Some cards \<Rightarrow>
               if \<not> truthy cards then Some []
               else
                 (case cards of
                    Json (JArray recs) \<Rightarrow>
                      filter_throwing (validRecommendation similarCards) recs
                  | _ \<Rightarrow> None)))"

definition parseAnswer ::
  "(string \<Rightarrow> json option) \<Rightarrow> CardEmbedding list \<Rightarrow> string \<Rightarrow> RecommendationsResponse" where
  "parseAnswer parse similarCards rawAnswer =
     (case parseRecommendations parse similarCards rawAnswer of
        Some validRecommendations \<Rightarrow>
          \<lparr> recommendations = validRecommendations, rawModelAnswer = Some rawAnswer \<rparr>
      | None \<Rightarrow> \<lparr> recommendations = [], rawModelAnswer = Some rawAnswer \<rparr>)"

text \<open>
  \<open>generateRecommendations\<close>: the result (\<open>Inl\<close> what the outer \<open>catch\<close> rethrows)
  and the calls made.
\<close>

definition generateRecommendations ::
  "world \<Rightarrow> string \<Rightarrow> int \<Rightarrow> (thrown + RecommendationsResponse) \<times> event list" where
  "generateRecommendations w userQuery topN =
     (case embedQuery w userQuery of
        Inl e \<Rightarrow> (Inl e, [EmbedQuery userQuery])
      | Inr queryEmbedding \<Rightarrow>
          (case findSimilarCards w queryEmbedding topN of
             Inl e \<Rightarrow> (Inl e, [EmbedQuery userQuery, FindSimilarCards queryEmbedding topN])
           | Inr similarCards \<Rightarrow>
               if length similarCards = 0 then
                 (Inr \<lparr> recommendations = [],
                        rawModelAnswer = Some ''No matching cards found.'' \<rparr>,
                  [EmbedQuery userQuery, FindSimilarCards queryEmbedding topN])
               else
                 (case getOpenAIClient w of
                    Inl e \<Rightarrow>
                      (Inl e, [EmbedQuery userQuery, FindSimilarCards queryEmbedding topN])
                  | Inr openai \<Rightarrow>
                      (case create w openai (chatRequest w userQuery similarCards) of
                         Inl e \<Rightarrow>
                           (Inl e,
                            [EmbedQuery userQuery, FindSimilarCards queryEmbedding topN,
                             ChatCompletionsCreate (chatRequest w userQuery similarCards)])
                       | Inr completion \<Rightarrow>
                           (Inr (parseAnswer (JSON_parse w) similarCards (rawAnswerOf completion)),
                            [EmbedQuery userQuery, FindSimilarCards queryEmbedding topN,
                             ChatCompletionsCreate (chatRequest w userQuery similarCards)])))))"

text \<open>
  A recommendation has the field \<open>k\<close> when reading it gives a truthy value: the test
  that the callback of \<open>filter\<close> makes for each of the three fields.
\<close>

definition hasField :: "json \<Rightarrow> string \<Rightarrow> bool" where
  "hasField rec k = (case getProp rec k of None \<Rightarrow> False | Some v \<Rightarrow> truthy v)"

section \<open>The query embedder\<close>


section \<open>The similarity retriever\<close>

text \<open>
  Modelled from the spec: the retriever and the similarity measure live in the module
  \<open>./embeddings\<close>, which is not part of the sources at hand. The spec: the retriever
  "computes a similarity score between the query vector and every stored vector (cosine
  similarity: dot product divided by the product of magnitudes), sorts candidates by
  descending score, and returns the top-K"; "tie-break: stable on original store order
  (equal scores preserve insertion order)". Scores are real numbers here; vectors of a
  store share one dimension, and \<open>dot\<close> pairs the components up to the shorter vector.
  The spec leaves the score of a vector of magnitude 0 open; the quotient is 0 here, and
  no property of the retriever below depends on that value.
\<close>

definition dot :: "real list \<Rightarrow> real list \<Rightarrow> real" where
  "dot a b = sum_list (map2 (*) a b)"

definition magnitude :: "real list \<Rightarrow> real" where
  "magnitude a = sqrt (dot a a)"

definition cosineSimilarity :: "real list \<Rightarrow> real list \<Rightarrow> real" where
  "cosineSimilarity a b = dot a b / (magnitude a * magnitude b)"

definition score :: "real list \<Rightarrow> CardEmbedding \<Rightarrow> real" where
  "score queryEmbedding e = cosineSimilarity queryEmbedding (embedding e)"

text \<open>
  Modelled from the spec: the stable sort by descending score, as an insertion sort. An
  entry goes in front of the first entry whose score is not larger than its own; the
  entries are inserted from the last to the first, so of two entries with one score the
  one that is earlier in the store stays in front.
\<close>

fun insertByScore :: "'a \<times> real \<Rightarrow> ('a \<times> real) list \<Rightarrow> ('a \<times> real) list" where
  "insertByScore x [] = [x]"
| "insertByScore x (y # ys) =
     (if snd y \<le> snd x then x # y # ys else y # insertByScore x ys)"

definition sortByScore :: "('a \<times> real) list \<Rightarrow> ('a \<times> real) list" where
  "sortByScore xs = foldr insertByScore xs []"

text \<open>
  Modelled from the spec: the Similarity Retriever over a store, a query vector and K.
\<close>

definition similarityRetriever ::
  "CardEmbedding list \<Rightarrow> real list \<Rightarrow> nat \<Rightarrow> CardEmbedding list" where
  "similarityRetriever store queryEmbedding K =
     map fst (take K (sortByScore (map (\<lambda>e. (e, score queryEmbedding e)) store)))"

section \<open>Concrete requests\<close>

text \<open>The store of the spec's retrieval example: cards A, B and C.\<close>

definition cardA :: CreditCard where
  "cardA = \<lparr> card_id = ''1'', credit_card_name = ''A'', url_application = ''http://x'',
             attributes = [] \<rparr>"

definition cardB :: CreditCard where
  "cardB = \<lparr> card_id = ''2'', credit_card_name = ''B'', url_application = ''http://b'',
             attributes = [] \<rparr>"

definition cardC :: CreditCard where
  "cardC = \<lparr> card_id = ''3'', credit_card_name = ''C'', url_application = ''http://c'',
             attributes = [] \<rparr>"

definition embA :: CardEmbedding where
  "embA = \<lparr> cardId = ''1'', embedding = [1, 0], card = cardA \<rparr>"

definition embB :: CardEmbedding where
  "embB = \<lparr> cardId = ''2'', embedding = [0, 1], card = cardB \<rparr>"

definition embC :: CardEmbedding where
  "embC = \<lparr> cardId = ''3'', embedding = [7 / 10, 7 / 10], card = cardC \<rparr>"

definition exampleStore :: "CardEmbedding list" where
  "exampleStore = [embA, embB, embC]"

text \<open>A store with a tie: D points the same way as A, so both score 1 for the query.\<close>

definition cardD :: CreditCard where
  "cardD = \<lparr> card_id = ''4'', credit_card_name = ''D'', url_application = ''http://d'',
             attributes = [] \<rparr>"

definition embD :: CardEmbedding where
  "embD = \<lparr> cardId = ''4'', embedding = [2, 0], card = cardD \<rparr>"

definition tieStore :: "CardEmbedding list" where
  "tieStore = [embB, embA, embC, embD]"

text \<open>
  The model output of the spec's validation example, and its parse: an entry for the
  candidate A and an entry for a card Z that is no candidate.
\<close>

definition recA :: json where
  "recA = JObject [(''credit_card_name'', JString ''A''), (''apply_url'', JString ''http://x''),
                   (''reason'', JString ''ok'')]"

definition recZ :: json where
  "recZ = JObject [(''credit_card_name'', JString ''Z''), (''apply_url'', JString ''http://y''),
                   (''reason'', JString ''bad'')]"

definition exampleAnswer :: string where
  \<open>exampleAnswer =
     ''{"cards":[{"credit_card_name":"A","apply_url":"http://x","reason":"ok"},''
     @ ''{"credit_card_name":"Z","apply_url":"http://y","reason":"bad"}]}''\<close>

text \<open>
  \<open>JSON.parse\<close> on the texts of the requests below: the example output, the empty
  object, and texts that are no JSON (the empty text, prose), which are all that these
  requests parse.
\<close>

definition exampleParse :: "string \<Rightarrow> json option" where
  "exampleParse s =
     (if s = exampleAnswer then Some (JObject [(''cards'', JArray [recA, recZ])])
      else if s = ''{}'' then Some (JObject [])
      else None)"

definition answering :: "string option \<Rightarrow> string \<Rightarrow> chat_request \<Rightarrow> thrown + completion" where
  "answering text key request =
     Inr \<lparr> choices = [\<lparr> message = Some \<lparr> content = text \<rparr> \<rparr>] \<rparr>"

text \<open>A request that retrieves the candidates A and C and gets the example output.\<close>

definition exampleWorld :: world where
  "exampleWorld =
     \<lparr> env_OPENAI_API_KEY = Some ''sk-test'',
       env_CHAT_MODEL = None,
       embedQuery = (\<lambda>q. Inr [1, 0]),
       findSimilarCards = (\<lambda>v n. Inr [embA, embC]),
       cardToText = (\<lambda>c. card_id c),
       create = answering (Some exampleAnswer),
       JSON_parse = exampleParse \<rparr>"

text \<open>The same request when the model answers in prose, with no text, or with \<open>{}\<close>.\<close>

definition proseWorld :: world where
  "proseWorld = exampleWorld \<lparr> create := answering (Some ''I recommend card A.'') \<rparr>"

definition emptyAnswerWorld :: world where
  "emptyAnswerWorld = exampleWorld \<lparr> create := answering (Some []) \<rparr>"

definition emptyObjectWorld :: world where
  "emptyObjectWorld = exampleWorld \<lparr> create := answering (Some ''{}'') \<rparr>"

text \<open>The same request when the retriever finds nothing.\<close>

definition noMatchWorld :: world where
  "noMatchWorld = exampleWorld \<lparr> findSimilarCards := (\<lambda>v n. Inr []) \<rparr>"



section \<open>Properties of the parsing and validation step\<close>

text \<open>
  What \<open>filter_throwing\<close> returns when no callback throws, and what a callback that
  returned \<open>true\<close> has checked.
\<close>

lemma filter_throwing_Some:
  "filter_throwing p xs = Some ys \<Longrightarrow> ys = filter (\<lambda>x. p x = Some True) xs"
  by (induction xs arbitrary: ys) (auto split: option.splits if_splits)

lemma filter_throwing_member:
  "filter_throwing p xs = Some ys \<Longrightarrow> r \<in> set ys \<Longrightarrow> p r = Some True"
  by (auto dest: filter_throwing_Some)

lemma validRecommendation_True:
  assumes "validRecommendation cands r = Some True"
  shows "(\<exists>c \<in> set cands. getProp r ''credit_card_name'' = Some (Json (JString (credit_card_name (card c)))))
       \<and> hasField r ''credit_card_name'' \<and> hasField r ''apply_url'' \<and> hasField r ''reason''"
  using assms unfolding validRecommendation_def hasField_def
  by (auto split: option.splits if_splits simp: list_ex_iff)

lemma parseRecommendations_member:
  assumes "parseRecommendations parse cands raw = Some recs" "r \<in> set recs"
  shows "validRecommendation cands r = Some True"
  using assms unfolding parseRecommendations_def
  by (auto split: option.splits if_splits jsval.splits json.splits dest: filter_throwing_member)

lemma parseAnswer_member:
  assumes "r \<in> set (recommendations (parseAnswer parse cands raw))"
  shows "validRecommendation cands r = Some True"
  using assms unfolding parseAnswer_def
  by (auto split: option.splits dest: parseRecommendations_member)

lemma parseAnswer_no_cards:
  assumes "parse raw = Some parsed" "getProp parsed ''cards'' = Some Undefined"
  shows "parseAnswer parse cands raw = \<lparr> recommendations = [], rawModelAnswer = Some raw \<rparr>"
  using assms unfolding parseAnswer_def parseRecommendations_def by simp

lemma parseAnswer_malformed:
  assumes "parse raw = None"
  shows "parseAnswer parse cands raw = \<lparr> recommendations = [], rawModelAnswer = Some raw \<rparr>"
  using assms unfolding parseAnswer_def parseRecommendations_def by simp

lemma generateRecommendations_answered:
  assumes "embedQuery w q = Inr v" "findSimilarCards w v n = Inr cands" "cands \<noteq> []"
    "getOpenAIClient w = Inr key" "create w key (chatRequest w q cands) = Inr c"
  shows "generateRecommendations w q n =
     (Inr (parseAnswer (JSON_parse w) cands (rawAnswerOf c)),
      [EmbedQuery q, FindSimilarCards v n, ChatCompletionsCreate (chatRequest w q cands)])"
  using assms unfolding generateRecommendations_def by simp

lemma generateRecommendations_member:
  assumes "fst (generateRecommendations w q n) = Inr resp" "embedQuery w q = Inr v"
    "findSimilarCards w v n = Inr cands" "r \<in> set (recommendations resp)"
  shows "validRecommendation cands r = Some True"
  using assms unfolding generateRecommendations_def
  by (auto split: sum.splits if_splits dest: parseAnswer_member)

lemma generateRecommendations_survivor:
  assumes "fst (generateRecommendations w q n) = Inr resp" "r \<in> set (recommendations resp)"
  shows "\<exists>cands. validRecommendation cands r = Some True"
  using assms unfolding generateRecommendations_def
  by (auto split: sum.splits if_splits dest: parseAnswer_member)

lemma rawAnswerOf_text:
  "choices c = ch # rest \<Longrightarrow> message ch = Some m \<Longrightarrow> content m = Some text \<Longrightarrow> rawAnswerOf c = text"
  unfolding rawAnswerOf_def by simp

lemma no_chat_without_client:
  assumes "getOpenAIClient w = Inl e"
  shows "ChatCompletionsCreate r \<notin> set (snd (generateRecommendations w q n))"
  using assms unfolding generateRecommendations_def
  by (auto split: sum.splits)

lemma chat_failure_rethrown:
  assumes "embedQuery w q = Inr v" "findSimilarCards w v n = Inr cands" "cands \<noteq> []"
    "getOpenAIClient w = Inr key" "create w key (chatRequest w q cands) = Inl e"
  shows "generateRecommendations w q n =
           (Inl e, [EmbedQuery q, FindSimilarCards v n,
                    ChatCompletionsCreate (chatRequest w q cands)])"
  using assms unfolding generateRecommendations_def by simp



section \<open>Properties of the stable sort and of the retriever\<close>

lemma mset_insertByScore: "mset (insertByScore x ys) = add_mset x (mset ys)"
  by (induction ys) auto

lemma mset_sortByScore: "mset (sortByScore xs) = mset xs"
  unfolding sortByScore_def by (induction xs) (auto simp: mset_insertByScore)

lemma set_insertByScore: "set (insertByScore x ys) = insert x (set ys)"
  by (induction ys) auto

lemma length_sortByScore: "length (sortByScore xs) = length xs"
  using mset_sortByScore[of xs] by (metis size_mset)

lemma sorted_insertByScore:
  "sorted_wrt (\<lambda>a b. snd b \<le> snd a) ys \<Longrightarrow> sorted_wrt (\<lambda>a b. snd b \<le> snd a) (insertByScore x ys)"
  by (induction ys) (auto simp: set_insertByScore)

lemma sorted_sortByScore: "sorted_wrt (\<lambda>a b. snd b \<le> snd a) (sortByScore xs)"
  unfolding sortByScore_def by (induction xs) (auto intro: sorted_insertByScore)

lemma filter_insertByScore:
  "filter (\<lambda>y. snd y = s) (insertByScore x ys) =
     (if snd x = s then x # filter (\<lambda>y. snd y = s) ys else filter (\<lambda>y. snd y = s) ys)"
  by (induction ys) auto

lemma filter_sortByScore:
  "filter (\<lambda>y. snd y = s) (sortByScore xs) = filter (\<lambda>y. snd y = s) xs"
  unfolding sortByScore_def by (induction xs) (auto simp: filter_insertByScore)

lemma sorted_take: "sorted_wrt R xs \<Longrightarrow> sorted_wrt R (take k xs)"
  by (metis append_take_drop_id sorted_wrt_append)

lemma scored_snd:
  "p \<in> set (sortByScore (map (\<lambda>e. (e, f e)) store)) \<Longrightarrow> snd p = f (fst p)"
proof -
  assume "p \<in> set (sortByScore (map (\<lambda>e. (e, f e)) store))"
  then have "p \<in># mset (sortByScore (map (\<lambda>e. (e, f e)) store))" by simp
  then have "p \<in> set (map (\<lambda>e. (e, f e)) store)" unfolding mset_sortByScore by simp
  then show ?thesis by auto
qed

lemma retriever_length: "length (similarityRetriever store q K) \<le> K"
  unfolding similarityRetriever_def by simp

lemma retriever_length_store: "length (similarityRetriever store q K) = min K (length store)"
  unfolding similarityRetriever_def by (simp add: length_sortByScore min.commute)

lemma retriever_sorted:
  "sorted_wrt (\<lambda>a b. b \<le> a) (map (score q) (similarityRetriever store q K))"
proof -
  let ?S = "sortByScore (map (\<lambda>e. (e, score q e)) store)"
  have eq: "map (score q) (map fst (take K ?S)) = map snd (take K ?S)"
    using scored_snd[of _ "score q" store] by (auto dest: in_set_takeD)
  have srt: "sorted_wrt (\<lambda>a b. b \<le> a) (map snd (take K ?S))"
    using sorted_take[OF sorted_sortByScore, of K "map (\<lambda>e. (e, score q e)) store"]
    by (simp add: sorted_wrt_map)
  show ?thesis unfolding similarityRetriever_def eq by (rule srt)
qed

lemma retriever_empty: "similarityRetriever [] q K = []"
  unfolding similarityRetriever_def sortByScore_def by simp

lemma retriever_all:
  assumes "length store \<le> K"
  shows "mset (similarityRetriever store q K) = mset store"
proof -
  let ?S = "sortByScore (map (\<lambda>e. (e, score q e)) store)"
  have "take K ?S = ?S" using assms by (simp add: length_sortByScore)
  then have "mset (similarityRetriever store q K) = image_mset fst (mset ?S)"
    unfolding similarityRetriever_def by simp
  also have "\<dots> = mset store" unfolding mset_sortByScore by (simp add: image_mset.compositionality comp_def)
  finally show ?thesis .
qed

lemma retriever_full_filter:
  "filter (\<lambda>e. score q e = s) (map fst (sortByScore (map (\<lambda>e. (e, score q e)) store)))
     = filter (\<lambda>e. score q e = s) store"
proof -
  let ?S = "sortByScore (map (\<lambda>e. (e, score q e)) store)"
  have "filter (\<lambda>e. score q e = s) (map fst ?S) = map fst (filter (\<lambda>p. score q (fst p) = s) ?S)"
    by (simp add: filter_map comp_def)
  also have "filter (\<lambda>p. score q (fst p) = s) ?S = filter (\<lambda>p. snd p = s) ?S"
    using scored_snd[of _ "score q" store] by (intro filter_cong) auto
  also have "\<dots> = filter (\<lambda>p. snd p = s) (map (\<lambda>e. (e, score q e)) store)"
    by (rule filter_sortByScore)
  also have "map fst \<dots> = filter (\<lambda>e. score q e = s) store"
    by (induction store) auto
  finally show ?thesis .
qed

lemma retriever_stable_prefix:
  "prefix (filter (\<lambda>e. score q e = s) (similarityRetriever store q K))
          (filter (\<lambda>e. score q e = s) store)"
proof -
  let ?S = "sortByScore (map (\<lambda>e. (e, score q e)) store)"
  have "prefix (map fst (take K ?S)) (map fst ?S)"
    by (simp add: take_is_prefix map_mono_prefix)
  then have "prefix (filter (\<lambda>e. score q e = s) (map fst (take K ?S)))
                    (filter (\<lambda>e. score q e = s) (map fst ?S))"
    by (rule filter_mono_prefix)
  then show ?thesis unfolding similarityRetriever_def retriever_full_filter .
qed

lemma retriever_stable_all:
  assumes "length store \<le> K"
  shows "filter (\<lambda>e. score q e = s) (similarityRetriever store q K) = filter (\<lambda>e. score q e = s) store"
proof -
  have "take K (sortByScore (map (\<lambda>e. (e, score q e)) store)) = sortByScore (map (\<lambda>e. (e, score q e)) store)"
    using assms by (simp add: length_sortByScore)
  then show ?thesis unfolding similarityRetriever_def using retriever_full_filter by simp
qed

section \<open>The concrete requests, evaluated\<close>

lemma exampleWorld_fields:
  "embedQuery exampleWorld q = Inr [1, 0]"
  "findSimilarCards exampleWorld v n = Inr [embA, embC]"
  "getOpenAIClient exampleWorld = Inr ''sk-test''"
  "create exampleWorld key r = answering (Some exampleAnswer) key r"
  "JSON_parse exampleWorld = exampleParse"
  unfolding exampleWorld_def getOpenAIClient_def by simp_all

lemma rawAnswerOf_answering:
  "answering (Some text) key r = Inr c \<Longrightarrow> rawAnswerOf c = text"
  unfolding answering_def rawAnswerOf_def by auto

lemma validRecommendation_recA: "validRecommendation [embA, embC] recA = Some True"
  unfolding validRecommendation_def recA_def embA_def cardA_def by simp

lemma validRecommendation_recZ: "validRecommendation [embA, embC] recZ = Some False"
  unfolding validRecommendation_def recZ_def embA_def embC_def cardA_def cardC_def by simp

lemma exampleParse_values:
  "exampleParse exampleAnswer = Some (JObject [(''cards'', JArray [recA, recZ])])"
  "exampleParse ''{}'' = Some (JObject [])"
  "exampleParse [] = None"
  "exampleParse ''I recommend card A.'' = None"
  unfolding exampleParse_def exampleAnswer_def by simp_all

lemma parseAnswer_example:
  "parseAnswer exampleParse [embA, embC] exampleAnswer =
     \<lparr> recommendations = [recA], rawModelAnswer = Some exampleAnswer \<rparr>"
  unfolding parseAnswer_def parseRecommendations_def
  by (simp add: exampleParse_values validRecommendation_recA validRecommendation_recZ)

lemma exampleWorld_run:
  "fst (generateRecommendations exampleWorld q n) =
     Inr \<lparr> recommendations = [recA], rawModelAnswer = Some exampleAnswer \<rparr>"
proof -
  have "generateRecommendations exampleWorld q n =
     (Inr (parseAnswer (JSON_parse exampleWorld) [embA, embC]
             (rawAnswerOf \<lparr> choices = [\<lparr> message = Some \<lparr> content = Some exampleAnswer \<rparr> \<rparr>] \<rparr>)),
      [EmbedQuery q, FindSimilarCards [1, 0] n,
       ChatCompletionsCreate (chatRequest exampleWorld q [embA, embC])])"
    by (rule generateRecommendations_answered[where key = "''sk-test''"])
       (simp_all add: exampleWorld_fields answering_def)
  then show ?thesis
    by (simp add: exampleWorld_fields rawAnswerOf_def parseAnswer_example)
qed

lemma proseWorld_fields:
  "embedQuery proseWorld q = Inr [1, 0]"
  "findSimilarCards proseWorld v n = Inr [embA, embC]"
  "getOpenAIClient proseWorld = Inr ''sk-test''"
  "create proseWorld key r =
     Inr \<lparr> choices = [\<lparr> message = Some \<lparr> content = Some ''I recommend card A.'' \<rparr> \<rparr>] \<rparr>"
  "JSON_parse proseWorld = exampleParse"
  unfolding proseWorld_def exampleWorld_def getOpenAIClient_def answering_def by simp_all

lemma emptyAnswerWorld_fields:
  "embedQuery emptyAnswerWorld q = Inr [1, 0]"
  "findSimilarCards emptyAnswerWorld v n = Inr [embA, embC]"
  "getOpenAIClient emptyAnswerWorld = Inr ''sk-test''"
  "create emptyAnswerWorld key r =
     Inr \<lparr> choices = [\<lparr> message = Some \<lparr> content = Some [] \<rparr> \<rparr>] \<rparr>"
  "JSON_parse emptyAnswerWorld = exampleParse"
  unfolding emptyAnswerWorld_def exampleWorld_def getOpenAIClient_def answering_def by simp_all

lemma emptyObjectWorld_fields:
  "embedQuery emptyObjectWorld q = Inr [1, 0]"
  "findSimilarCards emptyObjectWorld v n = Inr [embA, embC]"
  "getOpenAIClient emptyObjectWorld = Inr ''sk-test''"
  "create emptyObjectWorld key r =
     Inr \<lparr> choices = [\<lparr> message = Some \<lparr> content = Some ''{}'' \<rparr> \<rparr>] \<rparr>"
  "JSON_parse emptyObjectWorld = exampleParse"
  unfolding emptyObjectWorld_def exampleWorld_def getOpenAIClient_def answering_def by simp_all

lemma emptyObjectWorld_run:
  "fst (generateRecommendations emptyObjectWorld q n) =
     Inr \<lparr> recommendations = [], rawModelAnswer = Some ''{}'' \<rparr>"
proof -
  have "generateRecommendations emptyObjectWorld q n =
     (Inr (parseAnswer (JSON_parse emptyObjectWorld) [embA, embC]
             (rawAnswerOf \<lparr> choices = [\<lparr> message = Some \<lparr> content = Some ''{}'' \<rparr> \<rparr>] \<rparr>)),
      [EmbedQuery q, FindSimilarCards [1, 0] n,
       ChatCompletionsCreate (chatRequest emptyObjectWorld q [embA, embC])])"
    by (rule generateRecommendations_answered[where key = "''sk-test''"])
       (simp_all add: emptyObjectWorld_fields)
  then show ?thesis
    by (simp add: emptyObjectWorld_fields rawAnswerOf_def exampleParse_values
          parseAnswer_no_cards[where parsed = "JObject []"])
qed

lemma sqrt2_bounds: "138 / 100 < sqrt 2" "sqrt 2 < 142 / 100"
proof -
  show "138 / 100 < sqrt 2" by (rule real_less_rsqrt) (simp add: power2_eq_square)
  show "sqrt 2 < 142 / 100" by (rule real_less_lsqrt) (simp_all add: power2_eq_square)
qed

lemma score_embA: "score [1, 0] embA = 1"
  by (simp add: score_def cosineSimilarity_def magnitude_def dot_def embA_def)

lemma score_embB: "score [1, 0] embB = 0"
  by (simp add: score_def cosineSimilarity_def magnitude_def dot_def embB_def)

lemma score_embC: "score [1, 0] embC = sqrt 2 / 2"
proof -
  have "sqrt (98 / 100) = sqrt ((7 / 10)\<^sup>2 * 2)" by (simp add: power2_eq_square)
  also have "\<dots> = 7 / 10 * sqrt 2" by (simp only: real_sqrt_mult real_sqrt_abs)
  finally have s: "sqrt (98 / 100) = 7 / 10 * sqrt 2" .
  have "score [1, 0] embC = (7 / 10) / sqrt (98 / 100)"
    by (simp add: score_def cosineSimilarity_def magnitude_def dot_def embC_def)
  also have "\<dots> = 1 / sqrt 2" unfolding s by simp
  also have "\<dots> = sqrt 2 / 2" by (simp add: real_div_sqrt)
  finally show ?thesis .
qed

lemma score_embC_bounds: "69 / 100 < score [1, 0] embC" "score [1, 0] embC < 71 / 100"
  using sqrt2_bounds unfolding score_embC by simp_all

lemma score_embD: "score [1, 0] embD = 1"
  by (simp add: score_def cosineSimilarity_def magnitude_def dot_def embD_def)

lemma tieStore_ties: "filter (\<lambda>e. score [1, 0] e = 1) tieStore = [embA, embD]"
proof -
  have "score [1, 0] embC \<noteq> 1" using score_embC_bounds by simp
  then show ?thesis
    unfolding tieStore_def by (simp add: score_embA score_embB score_embD)
qed

section \<open>The claims\<close>

text \<open>
  C1: whatever the chat model answers, every recommendation that
  generateRecommendations returns carries a credit_card_name that is strictly equal to
  the credit_card_name of one of the candidate cards that findSimilarCards returned in
  this call; entries that name any other card are not returned.
\<close>

theorem recommended_names_are_candidates:
  assumes "fst (generateRecommendations w q n) = Inr resp"
    and "embedQuery w q = Inr v"
    and "findSimilarCards w v n = Inr cands"
    and "r \<in> set (recommendations resp)"
  shows "\<exists>c \<in> set cands.
           getProp r ''credit_card_name'' = Some (Json (JString (credit_card_name (card c))))"
  using generateRecommendations_member[OF assms] validRecommendation_True by blast

text \<open>
  C1 on the request of the validation example: candidates A and C, an answer that
  names A and Z; only the entry for A is returned.
\<close>

theorem recommended_names_are_candidates_witness:
  "fst (generateRecommendations exampleWorld ''best travel card'' 12) =
     Inr \<lparr> recommendations = [recA], rawModelAnswer = Some exampleAnswer \<rparr>
   \<and> (\<exists>c \<in> set [embA, embC].
         getProp recA ''credit_card_name'' = Some (Json (JString (credit_card_name (card c)))))"
  using recommended_names_are_candidates
    [of exampleWorld "''best travel card''" 12
        "\<lparr> recommendations = [recA], rawModelAnswer = Some exampleAnswer \<rparr>"
        "[1, 0]" "[embA, embC]" recA]
  by (simp add: exampleWorld_run exampleWorld_fields)

text \<open>
  C2, as amended: when the text of the chat model is not valid JSON,
  generateRecommendations returns (and does not throw) an empty recommendation list
  together with the raw answer, which is the text of the model unchanged. The raw answer
  is therefore non-empty exactly when the text of the model is; for an empty text it is
  the empty string.
\<close>

theorem malformed_json_returns_raw_text:
  assumes "embedQuery w q = Inr v"
    and "findSimilarCards w v n = Inr cands"
    and "cands \<noteq> []"
    and "getOpenAIClient w = Inr key"
    and "create w key (chatRequest w q cands) = Inr c"
    and "choices c = ch # rest"
    and "message ch = Some m"
    and "content m = Some text"
    and "JSON_parse w text = None"
  shows "fst (generateRecommendations w q n) =
           Inr \<lparr> recommendations = [], rawModelAnswer = Some text \<rparr>"
proof -
  have raw: "rawAnswerOf c = text"
    using assms(6-8) by (rule rawAnswerOf_text)
  show ?thesis
    unfolding generateRecommendations_answered[OF assms(1-5)] raw
    using assms(9) by (simp add: parseAnswer_malformed)
qed

text \<open>
  C2 on a request that the model answers in prose.
\<close>

theorem malformed_json_returns_raw_text_witness:
  "JSON_parse proseWorld ''I recommend card A.'' = None
   \<and> fst (generateRecommendations proseWorld ''best travel card'' 12) =
       Inr \<lparr> recommendations = [], rawModelAnswer = Some ''I recommend card A.'' \<rparr>"
  using malformed_json_returns_raw_text
    [of proseWorld "''best travel card''" "[1, 0]" 12 "[embA, embC]" "''sk-test''"
        "\<lparr> choices = [\<lparr> message = Some \<lparr> content = Some ''I recommend card A.'' \<rparr> \<rparr>] \<rparr>"
        "\<lparr> message = Some \<lparr> content = Some ''I recommend card A.'' \<rparr> \<rparr>" "[]"
        "\<lparr> content = Some ''I recommend card A.'' \<rparr>" "''I recommend card A.''"]
  by (simp add: proseWorld_fields exampleParse_values)

text \<open>
  C2 as it was stated fails when the model answers with the empty text: the empty text
  is not valid JSON, the request succeeds with no recommendation, and the raw answer is
  the empty string.
\<close>

theorem malformed_empty_text_counterexample:
  "JSON_parse emptyAnswerWorld [] = None
   \<and> create emptyAnswerWorld ''sk-test''
        (chatRequest emptyAnswerWorld ''best travel card'' [embA, embC]) =
       Inr \<lparr> choices = [\<lparr> message = Some \<lparr> content = Some [] \<rparr> \<rparr>] \<rparr>
   \<and> fst (generateRecommendations emptyAnswerWorld ''best travel card'' 12) =
       Inr \<lparr> recommendations = [], rawModelAnswer = Some [] \<rparr>"
proof -
  have "generateRecommendations emptyAnswerWorld ''best travel card'' 12 =
     (Inr (parseAnswer (JSON_parse emptyAnswerWorld) [embA, embC]
             (rawAnswerOf \<lparr> choices = [\<lparr> message = Some \<lparr> content = Some [] \<rparr> \<rparr>] \<rparr>)),
      [EmbedQuery ''best travel card'', FindSimilarCards [1, 0] 12,
       ChatCompletionsCreate (chatRequest emptyAnswerWorld ''best travel card'' [embA, embC])])"
    by (rule generateRecommendations_answered[where key = "''sk-test''"])
       (simp_all add: emptyAnswerWorld_fields)
  then show ?thesis
    by (simp add: emptyAnswerWorld_fields rawAnswerOf_def exampleParse_values parseAnswer_malformed)
qed



text \<open>
  C4: for every query vector, store and K, the retriever returns at most K entries,
  in the order of non-increasing cosine similarity to the query (the dot product divided
  by the product of the magnitudes); for the empty store it returns the empty list.
\<close>

theorem retriever_at_most_K_sorted:
  "length (similarityRetriever store q K) \<le> K
   \<and> sorted_wrt (\<lambda>a b. b \<le> a) (map (score q) (similarityRetriever store q K))
   \<and> score q e = dot q (embedding e) / (sqrt (dot q q) * sqrt (dot (embedding e) (embedding e)))
   \<and> similarityRetriever [] q K = []"
  using retriever_length retriever_sorted retriever_empty
  by (simp add: score_def cosineSimilarity_def magnitude_def)

text \<open>
  C5: when the text of the chat model parses as JSON, the list of recommendations is
  taken from the field cards, an absent field counting as the empty list, and every
  recommendation returned has a name, a URL and a reason: an entry that misses one of
  the three is filtered out.
\<close>

theorem only_complete_recommendations_survive:
  "(fst (generateRecommendations w q n) = Inr resp \<longrightarrow>
      (\<forall>r \<in> set (recommendations resp).
          hasField r ''credit_card_name'' \<and> hasField r ''apply_url''
          \<and> hasField r ''reason''))
   \<and> (embedQuery w q = Inr v \<longrightarrow> findSimilarCards w v n = Inr cands \<longrightarrow> cands \<noteq> [] \<longrightarrow>
      getOpenAIClient w = Inr key \<longrightarrow> create w key (chatRequest w q cands) = Inr c \<longrightarrow>
      JSON_parse w (rawAnswerOf c) = Some parsed \<longrightarrow>
      getProp parsed ''cards'' = Some Undefined \<longrightarrow>
      fst (generateRecommendations w q n) =
        Inr \<lparr> recommendations = [], rawModelAnswer = Some (rawAnswerOf c) \<rparr>)"
proof (rule conjI)
  show "fst (generateRecommendations w q n) = Inr resp \<longrightarrow>
      (\<forall>r \<in> set (recommendations resp).
          hasField r ''credit_card_name'' \<and> hasField r ''apply_url''
          \<and> hasField r ''reason'')"
  proof (rule impI, rule ballI)
    fix r
    assume "fst (generateRecommendations w q n) = Inr resp" "r \<in> set (recommendations resp)"
    then obtain cands' where "validRecommendation cands' r = Some True"
      using generateRecommendations_survivor by blast
    then show "hasField r ''credit_card_name'' \<and> hasField r ''apply_url''
            \<and> hasField r ''reason''"
      using validRecommendation_True by blast
  qed
next
  show "embedQuery w q = Inr v \<longrightarrow> findSimilarCards w v n = Inr cands \<longrightarrow> cands \<noteq> [] \<longrightarrow>
      getOpenAIClient w = Inr key \<longrightarrow> create w key (chatRequest w q cands) = Inr c \<longrightarrow>
      JSON_parse w (rawAnswerOf c) = Some parsed \<longrightarrow>
      getProp parsed ''cards'' = Some Undefined \<longrightarrow>
      fst (generateRecommendations w q n) =
        Inr \<lparr> recommendations = [], rawModelAnswer = Some (rawAnswerOf c) \<rparr>"
  proof (intro impI)
    assume path: "embedQuery w q = Inr v" "findSimilarCards w v n = Inr cands" "cands \<noteq> []"
      "getOpenAIClient w = Inr key" "create w key (chatRequest w q cands) = Inr c"
      and parsed: "JSON_parse w (rawAnswerOf c) = Some parsed"
        "getProp parsed ''cards'' = Some Undefined"
    show "fst (generateRecommendations w q n) =
          Inr \<lparr> recommendations = [], rawModelAnswer = Some (rawAnswerOf c) \<rparr>"
      unfolding generateRecommendations_answered[OF path]
      using parseAnswer_no_cards[of "JSON_parse w" "rawAnswerOf c" parsed cands] parsed
      by simp
  qed
qed

text \<open>
  C5 on the example request (the entry for A survives, with its three fields) and on
  the request that the model answers with the empty object (no field cards, no
  recommendation).
\<close>

theorem only_complete_recommendations_survive_witness:
  "(fst (generateRecommendations exampleWorld ''best travel card'' 12) =
      Inr \<lparr> recommendations = [recA], rawModelAnswer = Some exampleAnswer \<rparr>
    \<and> hasField recA ''credit_card_name'' \<and> hasField recA ''apply_url''
    \<and> hasField recA ''reason'')
   \<and> (JSON_parse emptyObjectWorld ''{}'' = Some (JObject [])
      \<and> getProp (JObject []) ''cards'' = Some Undefined
      \<and> fst (generateRecommendations emptyObjectWorld ''best travel card'' 12) =
          Inr \<lparr> recommendations = [], rawModelAnswer = Some ''{}'' \<rparr>)"
  using only_complete_recommendations_survive
    [of exampleWorld "''best travel card''" 12
        "\<lparr> recommendations = [recA], rawModelAnswer = Some exampleAnswer \<rparr>"]
    only_complete_recommendations_survive
    [of emptyObjectWorld "''best travel card''" 12 _ "[1, 0]" "[embA, embC]" "''sk-test''"
        "\<lparr> choices = [\<lparr> message = Some \<lparr> content = Some ''{}'' \<rparr> \<rparr>] \<rparr>"
        "JObject []"]
  by (simp add: exampleWorld_run emptyObjectWorld_fields rawAnswerOf_def exampleParse_values)

text \<open>
  C6: when K is at least the size of the store, the retriever returns every entry of
  the store, sorted by descending similarity, and entries with one score are in the
  order they have in the store; for any K, the returned entries with one score are the
  first entries of the store with that score, in the order of the store.
\<close>

theorem retriever_whole_store_stable:
  "(length store \<le> K \<longrightarrow>
      mset (similarityRetriever store q K) = mset store
      \<and> sorted_wrt (\<lambda>a b. b \<le> a) (map (score q) (similarityRetriever store q K))
      \<and> filter (\<lambda>e. score q e = s) (similarityRetriever store q K)
          = filter (\<lambda>e. score q e = s) store)
   \<and> prefix (filter (\<lambda>e. score q e = s) (similarityRetriever store q K))
            (filter (\<lambda>e. score q e = s) store)"
proof (intro conjI impI)
  assume "length store \<le> K"
  then show "mset (similarityRetriever store q K) = mset store"
    by (rule retriever_all)
next
  show "sorted_wrt (\<lambda>a b. b \<le> a) (map (score q) (similarityRetriever store q K))"
    by (rule retriever_sorted)
next
  assume "length store \<le> K"
  then show "filter (\<lambda>e. score q e = s) (similarityRetriever store q K)
          = filter (\<lambda>e. score q e = s) store"
    by (rule retriever_stable_all)
next
  show "prefix (filter (\<lambda>e. score q e = s) (similarityRetriever store q K))
            (filter (\<lambda>e. score q e = s) store)"
    by (rule retriever_stable_prefix)
qed

text \<open>
  C6 on the store B, A, C, D with K = 4: A and D both score 1 and come back in the
  order they have in the store.
\<close>

theorem retriever_whole_store_stable_witness:
  "length tieStore \<le> 4
   \<and> mset (similarityRetriever tieStore [1, 0] 4) = mset tieStore
   \<and> filter (\<lambda>e. score [1, 0] e = 1) (similarityRetriever tieStore [1, 0] 4) = [embA, embD]"
proof -
  have len: "length tieStore \<le> 4" by (simp add: tieStore_def)
  show ?thesis
    using retriever_whole_store_stable [of tieStore 4 "[1, 0]" 1] len
    by (simp only: tieStore_ties simp_thms)
qed

text \<open>
  C8: for the store A, B, C with the embeddings [1,0], [0,1], [0.7,0.7] and the query
  [1,0], the retriever with K = 2 returns A then C; A scores 1, C scores 0.7 to within
  0.01 (its score is half the square root of 2), B scores 0.
\<close>

theorem retrieval_example_top2:
  "similarityRetriever exampleStore [1, 0] 2 = [embA, embC]
   \<and> score [1, 0] embA = 1
   \<and> \<bar>score [1, 0] embC - 7 / 10\<bar> < 1 / 100
   \<and> score [1, 0] embB = 0"
proof -
  have cb: "\<not> score [1, 0] embC \<le> 0" and ca: "score [1, 0] embC \<le> 1"
    using score_embC_bounds by simp_all
  have "similarityRetriever exampleStore [1, 0] 2 = [embA, embC]"
    unfolding similarityRetriever_def sortByScore_def exampleStore_def
    by (simp add: score_embA score_embB cb ca numeral_2_eq_2)
  moreover have "\<bar>score [1, 0] embC - 7 / 10\<bar> < 1 / 100"
    using score_embC_bounds by linarith
  ultimately show ?thesis using score_embA score_embB by simp
qed

text \<open>
  C10: when the retriever returns no candidate, generateRecommendations returns no
  recommendation and the raw answer "No matching cards found.", and the chat-completion
  model is not called.
\<close>

theorem no_candidates_no_chat_call:
  assumes "embedQuery w q = Inr v"
    and "findSimilarCards w v n = Inr []"
  shows "generateRecommendations w q n =
           (Inr \<lparr> recommendations = [], rawModelAnswer = Some ''No matching cards found.'' \<rparr>,
            [EmbedQuery q, FindSimilarCards v n])
       \<and> (\<forall>r. ChatCompletionsCreate r \<notin> set (snd (generateRecommendations w q n)))"
  using assms unfolding generateRecommendations_def by simp

text \<open>
  C10 on the example request when the retriever finds nothing.
\<close>

theorem no_candidates_no_chat_call_witness:
  "generateRecommendations noMatchWorld ''best travel card'' 12 =
     (Inr \<lparr> recommendations = [], rawModelAnswer = Some ''No matching cards found.'' \<rparr>,
      [EmbedQuery ''best travel card'', FindSimilarCards [1, 0] 12])"
  using no_candidates_no_chat_call [of noMatchWorld "''best travel card''" "[1, 0]" 12]
  by (simp add: noMatchWorld_def exampleWorld_def)

end
